theory Spec2Isabelle
  imports Complex_Main
begin

section \<open>Python values and errors\<close>

text \<open>
  The functions of \<^verbatim>\<open>src/models/query_utils.py\<close> are dynamically typed: the same
  argument is a dict, a str, \<^verbatim>\<open>None\<close> or anything else. A value of the program is a
  \<open>pyval\<close>. A text is a list of 8-bit characters, read as the code points U+0000 to
  U+00FF; a dict is the list of its items in insertion order.

  \<open>PFloat q\<close> is the float nearest to the number \<open>q\<close> (the decimal a JSON literal
  writes, or the value of the float itself); the program only ever compares a float with
  the integers 0 and 1.
\<close>

datatype pyval =
    PNone
  | PBool bool
  | PInt int
  | PFloat rat
  | PNan
  | PInf bool
  | PStr string
  | PList "pyval list"
  | PDict "(pyval \<times> pyval) list"

datatype error = ValueError | TypeError | IndexError | AttributeError

section \<open>Task dispatch\<close>

text \<open>\<^verbatim>\<open>needle in haystack\<close> on two texts: some suffix of the haystack starts with the needle.\<close>

fun starts_with :: "string \<Rightarrow> string \<Rightarrow> bool" where
  "starts_with [] s = True"
| "starts_with (c # cs) [] = False"
| "starts_with (c # cs) (d # ds) = (c = d \<and> starts_with cs ds)"

fun str_contains :: "string \<Rightarrow> string \<Rightarrow> bool" where
  "str_contains needle [] = (needle = [])"
| "str_contains needle (c # cs) = (starts_with needle (c # cs) \<or> str_contains needle cs)"

text \<open>
  The three parameter records \<^verbatim>\<open>query_params_sentiment\<close>, \<^verbatim>\<open>query_params_gold\<close> and
  \<^verbatim>\<open>query_params_summary\<close> come from \<^verbatim>\<open>src/config/query_config.py\<close>;
  \<open>get_query_params\<close> returns one of them, named here by its task.
\<close>

datatype query_params = query_params_sentiment | query_params_gold | query_params_summary

definition get_query_params :: "string \<Rightarrow> error + query_params" where
  "get_query_params dataset_name =
     (if str_contains ''sentiment'' dataset_name then Inr query_params_sentiment
      else if str_contains ''gold'' dataset_name then Inr query_params_gold
      else if str_contains ''summary'' dataset_name then Inr query_params_summary
      else Inl ValueError)"

section \<open>Majority voting\<close>

text \<open>
  \<^verbatim>\<open>Counter(responses)\<close> counts the items in the order in which they first appear;
  \<^verbatim>\<open>most_common(1)\<close> is the first item, in that order, whose count is largest, and the
  empty list when there is no item, so that \<^verbatim>\<open>[0]\<close> raises \<^verbatim>\<open>IndexError\<close>.
  Items are compared by the equality of their type (texts, integers).
\<close>

fun counter_add :: "'a \<Rightarrow> ('a \<times> nat) list \<Rightarrow> ('a \<times> nat) list" where
  "counter_add x [] = [(x, 1)]"
| "counter_add x ((y, n) # cs) =
     (if x = y then (y, Suc n) # cs else (y, n) # counter_add x cs)"

definition Counter :: "'a list \<Rightarrow> ('a \<times> nat) list" where
  "Counter responses = foldl (\<lambda>c x. counter_add x c) [] responses"

text \<open>\<^verbatim>\<open>counter[x]\<close>: the count of an item, 0 when it has none.\<close>

definition cnt :: "('a \<times> nat) list \<Rightarrow> 'a \<Rightarrow> nat" where
  "cnt c x = (case map_of c x of Some n \<Rightarrow> n | None \<Rightarrow> 0)"

fun max_first :: "('a \<times> nat) \<Rightarrow> ('a \<times> nat) list \<Rightarrow> ('a \<times> nat)" where
  "max_first best [] = best"
| "max_first best (q # qs) = max_first (if snd best < snd q then q else best) qs"

fun most_common_1 :: "('a \<times> nat) list \<Rightarrow> ('a \<times> nat) list" where
  "most_common_1 [] = []"
| "most_common_1 (p # ps) = [max_first p ps]"

text \<open>
  \<^verbatim>\<open>random.choice(seq)\<close> returns \<^verbatim>\<open>seq[i]\<close> for an index \<open>i\<close> below \<^verbatim>\<open>len(seq)\<close> that the
  generator draws. The draw is the parameter \<open>r\<close>; every index is the image of some draw.
\<close>

definition random_choice :: "'a list \<Rightarrow> nat \<Rightarrow> 'a" where
  "random_choice seq r = seq ! (r mod length seq)"

text \<open>
  \<^verbatim>\<open>majority[1] > len(responses) / 2\<close> compares a count with half the length as a
  float: it holds exactly when twice the count exceeds the length.
\<close>

definition find_majority_str :: "'a list \<Rightarrow> nat \<Rightarrow> error + 'a" where
  "find_majority_str responses r =
     (case most_common_1 (Counter responses) of
        [] \<Rightarrow> Inl IndexError
      | majority # _ \<Rightarrow>
          if length responses < 2 * snd majority then Inr (fst majority)
          else Inr (random_choice responses r))"

text \<open>
  \<open>find_majority_dict\<close>: the first loop collects, for each key in order of first
  appearance, the values seen under it; the second votes on each list of values. The
  draw for the key at position \<open>i\<close> is \<open>draws i\<close>.
\<close>

fun dict_append :: "'k \<Rightarrow> 'v \<Rightarrow> ('k \<times> 'v list) list \<Rightarrow> ('k \<times> 'v list) list" where
  "dict_append key v [] = [(key, [v])]"
| "dict_append key v ((k, vs) # d) =
     (if key = k then (k, vs @ [v]) # d else (k, vs) # dict_append key v d)"

definition collect_values :: "('k \<times> 'v) list list \<Rightarrow> ('k \<times> 'v list) list" where
  "collect_values responses =
     foldl (\<lambda>d response. foldl (\<lambda>d' (key, v). dict_append key v d') d response) [] responses"

fun vote_each :: "('k \<times> 'v list) list \<Rightarrow> nat \<Rightarrow> (nat \<Rightarrow> nat) \<Rightarrow> error + ('k \<times> 'v) list" where
  "vote_each [] i draws = Inr []"
| "vote_each ((key, vals) # d) i draws =
     (case find_majority_str vals (draws i) of
        Inl e \<Rightarrow> Inl e
      | Inr v \<Rightarrow> (case vote_each d (Suc i) draws of
                   Inl e \<Rightarrow> Inl e
                 | Inr rest \<Rightarrow> Inr ((key, v) # rest)))"

definition find_majority_dict :: "('k \<times> 'v) list list \<Rightarrow> (nat \<Rightarrow> nat) \<Rightarrow> error + ('k \<times> 'v) list" where
  "find_majority_dict responses draws = vote_each (collect_values responses) 0 draws"

section \<open>Regular expressions\<close>

text \<open>
  The patterns of the program are values of \<open>re\<close>, matched the way Python's \<^verbatim>\<open>re\<close>
  module matches: by backtracking, the first alternative first, a greedy repetition
  longest first and a lazy one shortest first. Every repetition in the program repeats a
  single character class, so \<open>Rep greedy n cls\<close> stands for \<^verbatim>\<open>cls{n,}\<close>
  (\<^verbatim>\<open>cls{n,}?\<close> when lazy). \<open>Bol\<close> and \<open>Eol\<close> are \<^verbatim>\<open>^\<close> and \<^verbatim>\<open>$\<close> under
  \<^verbatim>\<open>re.MULTILINE\<close>, \<open>EolS\<close> is \<^verbatim>\<open>$\<close> without it, \<open>EndZ\<close> is \<^verbatim>\<open>\Z\<close>.

  The matcher is written with a continuation \<open>k\<close> for the rest of the pattern; it is
  given the character before the current position (for \<^verbatim>\<open>^\<close>), the text from the
  position on, and the groups captured so far.
\<close>

datatype re =
    Eps
  | Sym "char \<Rightarrow> bool"
  | Seq re re
  | Alt re re
  | Rep bool nat "char \<Rightarrow> bool"
  | Grp nat re
  | Bol
  | Eol
  | EolS
  | EndZ

type_synonym caps = "(nat \<times> string) list"

primrec rep_greedy ::
  "(char \<Rightarrow> bool) \<Rightarrow> string \<Rightarrow> nat \<Rightarrow> char option \<Rightarrow> (char option \<Rightarrow> string \<Rightarrow> 'a option) \<Rightarrow> 'a option" where
  "rep_greedy cls [] n p k = (if n = 0 then k p [] else None)"
| "rep_greedy cls (c # cs) n p k =
     (if cls c then
        (case rep_greedy cls cs (n - 1) (Some c) k of
           Some x \<Rightarrow> Some x
         | None \<Rightarrow> if n = 0 then k p (c # cs) else None)
      else if n = 0 then k p (c # cs) else None)"

primrec rep_lazy ::
  "(char \<Rightarrow> bool) \<Rightarrow> string \<Rightarrow> nat \<Rightarrow> char option \<Rightarrow> (char option \<Rightarrow> string \<Rightarrow> 'a option) \<Rightarrow> 'a option" where
  "rep_lazy cls [] n p k = (if n = 0 then k p [] else None)"
| "rep_lazy cls (c # cs) n p k =
     (case (if n = 0 then k p (c # cs) else None) of
        Some x \<Rightarrow> Some x
      | None \<Rightarrow> if cls c then rep_lazy cls cs (n - 1) (Some c) k else None)"

primrec m ::
  "re \<Rightarrow> char option \<Rightarrow> string \<Rightarrow> caps \<Rightarrow> (char option \<Rightarrow> string \<Rightarrow> caps \<Rightarrow> 'a option) \<Rightarrow> 'a option" where
  "m Eps p s g k = k p s g"
| "m (Sym cls) p s g k =
     (case s of [] \<Rightarrow> None | c # cs \<Rightarrow> if cls c then k (Some c) cs g else None)"
| "m (Seq a b) p s g k = m a p s g (\<lambda>p' s' g'. m b p' s' g' k)"
| "m (Alt a b) p s g k =
     (case m a p s g k of Some x \<Rightarrow> Some x | None \<Rightarrow> m b p s g k)"
| "m (Rep greedy n cls) p s g k =
     (if greedy then rep_greedy cls s n p (\<lambda>p' s'. k p' s' g)
      else rep_lazy cls s n p (\<lambda>p' s'. k p' s' g))"
| "m (Grp i a) p s g k =
     m a p s g (\<lambda>p' s' g'. k p' s' (g' @ [(i, take (length s - length s') s)]))"
| "m Bol p s g k = (if p = None \<or> p = Some CHR ''\<newline>'' then k p s g else None)"
| "m Eol p s g k = (if s = [] \<or> hd s = CHR ''\<newline>'' then k p s g else None)"
| "m EolS p s g k = (if s = [] \<or> s = ''\<newline>'' then k p s g else None)"
| "m EndZ p s g k = (if s = [] then k p s g else None)"

text \<open>
  A match at the current position: the character before the end of the match, the text
  after it and the groups. A match that consumes nothing is not one here; no pattern of
  this program can match the empty text.
\<close>

definition match_here :: "re \<Rightarrow> char option \<Rightarrow> string \<Rightarrow> (char option \<times> string \<times> caps) option" where
  "match_here r p s =
     (case m r p s [] (\<lambda>p' s' g. Some (p', s', g)) of
        Some (p', s', g) \<Rightarrow> if length s' < length s then Some (p', s', g) else None
      | None \<Rightarrow> None)"

text \<open>
  \<^verbatim>\<open>re.sub(pattern, repl, text)\<close> for a replacement without group references: scan from
  the left, replace a match and go on after it, else keep the character and move on.
\<close>

function sub_from :: "re \<Rightarrow> string \<Rightarrow> char option \<Rightarrow> string \<Rightarrow> string" where
  "sub_from r repl p s =
     (case match_here r p s of
        Some (p', s', g) \<Rightarrow> repl @ sub_from r repl p' s'
      | None \<Rightarrow> (case s of [] \<Rightarrow> [] | c # cs \<Rightarrow> c # sub_from r repl (Some c) cs))"
  by pat_completeness auto
termination
  by (relation "measure (\<lambda>(r, repl, p, s). length s)")
     (auto simp: match_here_def split: option.splits if_splits)

definition re_sub :: "re \<Rightarrow> string \<Rightarrow> string \<Rightarrow> string" where
  "re_sub r repl text = sub_from r repl None text"

text \<open>
  \<^verbatim>\<open>re.findall\<close>: the matches from left to right, each with its groups.
\<close>

function matches_from :: "re \<Rightarrow> char option \<Rightarrow> string \<Rightarrow> (string \<times> caps) list" where
  "matches_from r p s =
     (case match_here r p s of
        Some (p', s', g) \<Rightarrow> (take (length s - length s') s, g) # matches_from r p' s'
      | None \<Rightarrow> (case s of [] \<Rightarrow> [] | c # cs \<Rightarrow> matches_from r (Some c) cs))"
  by pat_completeness auto
termination
  by (relation "measure (\<lambda>(r, p, s). length s)")
     (auto simp: match_here_def split: option.splits if_splits)

definition re_findall :: "re \<Rightarrow> string \<Rightarrow> string list" where
  "re_findall r text = map fst (matches_from r None text)"

text \<open>The text of group \<open>i\<close>: what it captured last, the empty text if it never matched.\<close>

definition group :: "caps \<Rightarrow> nat \<Rightarrow> string" where
  "group g i = (case map_of (rev g) i of Some t \<Rightarrow> t | None \<Rightarrow> [])"

definition re_findall2 :: "re \<Rightarrow> string \<Rightarrow> (string \<times> string) list" where
  "re_findall2 r text = map (\<lambda>(t, g). (group g 1, group g 2)) (matches_from r None text)"

subsection \<open>Character classes and pattern constructors\<close>

text \<open>
  On the code points below U+0100: \<^verbatim>\<open>\s\<close> and \<^verbatim>\<open>str.strip\<close> take the same white space
  (U+0009 to U+000D, U+001C to U+0020, U+0085, U+00A0); \<^verbatim>\<open>\d\<close> is an ASCII digit;
  \<^verbatim>\<open>\w\<close> is an underscore or an alphanumeric character; \<^verbatim>\<open>str.lower\<close>, which is also
  how \<^verbatim>\<open>re.IGNORECASE\<close> compares, sets bit 5 of an upper-case letter (A to Z, and
  U+00C0 to U+00DE without U+00D7).
\<close>

definition is_space :: "char \<Rightarrow> bool" where
  "is_space c = (let n = (of_char c :: nat) in
     (9 \<le> n \<and> n \<le> 13) \<or> (28 \<le> n \<and> n \<le> 32) \<or> n = 133 \<or> n = 160)"

definition is_digit :: "char \<Rightarrow> bool" where
  "is_digit c = (let n = (of_char c :: nat) in 48 \<le> n \<and> n \<le> 57)"

definition is_upper :: "char \<Rightarrow> bool" where
  "is_upper c = (let n = (of_char c :: nat) in
     (65 \<le> n \<and> n \<le> 90) \<or> (192 \<le> n \<and> n \<le> 222 \<and> n \<noteq> 215))"

definition is_word :: "char \<Rightarrow> bool" where
  "is_word c = (let n = (of_char c :: nat) in
     (48 \<le> n \<and> n \<le> 57) \<or> (65 \<le> n \<and> n \<le> 90) \<or> n = 95 \<or> (97 \<le> n \<and> n \<le> 122)
     \<or> n = 170 \<or> n = 178 \<or> n = 179 \<or> n = 181 \<or> (185 \<le> n \<and> n \<le> 186)
     \<or> (188 \<le> n \<and> n \<le> 190) \<or> (192 \<le> n \<and> n \<le> 214) \<or> (216 \<le> n \<and> n \<le> 246)
     \<or> 248 \<le> n)"

definition py_lower :: "char \<Rightarrow> char" where
  "py_lower c =
     (if is_upper c
      then (case c of Char b0 b1 b2 b3 b4 b5 b6 b7 \<Rightarrow> Char b0 b1 b2 b3 b4 True b6 b7)
      else c)"

definition any_char :: "char \<Rightarrow> bool" where
  "any_char c = True"

definition dot :: "char \<Rightarrow> bool" where
  "dot c = (c \<noteq> CHR ''\<newline>'')"

definition chr :: "char \<Rightarrow> re" where
  "chr c = Sym (\<lambda>d. d = c)"

definition ichr :: "char \<Rightarrow> re" where
  "ichr c = Sym (\<lambda>d. py_lower d = py_lower c)"

definition seqs :: "re list \<Rightarrow> re" where
  "seqs rs = foldr Seq rs Eps"

definition lit :: "string \<Rightarrow> re" where
  "lit t = seqs (map chr t)"

definition ilit :: "string \<Rightarrow> re" where
  "ilit t = seqs (map ichr t)"

definition opt :: "re \<Rightarrow> re" where
  "opt r = Alt r Eps"

text \<open>\<^verbatim>\<open>str.strip()\<close>: white space is dropped from both ends.\<close>

definition strip :: "string \<Rightarrow> string" where
  "strip t = rev (dropWhile is_space (rev (dropWhile is_space t)))"

section \<open>Voting by task\<close>

text \<open>
  \<open>find_majority\<close> takes whatever list it is given. \<^verbatim>\<open>Counter\<close> hashes every item, so
  a list or a dict among them raises \<^verbatim>\<open>TypeError\<close>; \<open>find_majority_dict\<close> calls
  \<^verbatim>\<open>.items()\<close> on every response, so a response that is no dict raises
  \<^verbatim>\<open>AttributeError\<close>. A dataset name with none of the three keywords falls through the
  \<^verbatim>\<open>if\<close> chain and the function returns \<^verbatim>\<open>None\<close>.
\<close>

fun hashable :: "pyval \<Rightarrow> bool" where
  "hashable (PList xs) = False"
| "hashable (PDict d) = False"
| "hashable v = True"

fun is_dict :: "pyval \<Rightarrow> bool" where
  "is_dict (PDict d) = True"
| "is_dict v = False"

fun items :: "pyval \<Rightarrow> (pyval \<times> pyval) list" where
  "items (PDict d) = d"
| "items v = []"

definition find_majority_items :: "pyval list \<Rightarrow> nat \<Rightarrow> error + pyval" where
  "find_majority_items responses r =
     (if \<forall>x \<in> set responses. hashable x then find_majority_str responses r
      else Inl TypeError)"

definition find_majority_records :: "pyval list \<Rightarrow> (nat \<Rightarrow> nat) \<Rightarrow> error + pyval" where
  "find_majority_records responses draws =
     (if \<exists>x \<in> set responses. \<not> is_dict x then Inl AttributeError
      else if \<exists>x \<in> set responses. \<exists>kv \<in> set (items x). \<not> hashable (snd kv) then Inl TypeError
      else (case find_majority_dict (map items responses) draws of
              Inl e \<Rightarrow> Inl e
            | Inr d \<Rightarrow> Inr (PDict d)))"

definition find_majority :: "pyval list \<Rightarrow> string \<Rightarrow> (nat \<Rightarrow> nat) \<Rightarrow> error + pyval" where
  "find_majority responses dataset_name draws =
     (if str_contains ''sentiment'' dataset_name then find_majority_items responses (draws 0)
      else if str_contains ''gold'' dataset_name then find_majority_records responses draws
      else if str_contains ''summary'' dataset_name then find_majority_items responses (draws 0)
      else Inr PNone)"

section \<open>Summary cleaning\<close>

text \<open>The patterns of \<open>clean_llm_output_summary\<close>, in the order of the source.\<close>

text \<open>\<^verbatim>\<open>(?im)^.*?\d+\s+bullet points?.*$\<close>\<close>

definition bullet_count_line :: re where
  "bullet_count_line =
     seqs [Bol, Rep False 0 dot, Rep True 1 is_digit, Rep True 1 is_space,
           ilit ''bullet point'', opt (ichr CHR ''s''), Rep True 0 dot, Eol]"

text \<open>\<^verbatim>\<open>(?im)^.*?(bullet points?|summary|summariz|key points|important facts).*?(?:\.|\:|\n)\<close>\<close>

definition headline :: re where
  "headline =
     seqs [Bol, Rep False 0 dot,
           Grp 1 (Alt (Seq (ilit ''bullet point'') (opt (ichr CHR ''s'')))
                 (Alt (ilit ''summary'')
                 (Alt (ilit ''summariz'')
                 (Alt (ilit ''key points'') (ilit ''important facts''))))),
           Rep False 0 dot,
           Alt (chr CHR ''.'') (Alt (chr CHR '':'') (chr CHR ''\<newline>''))]"

text \<open>\<^verbatim>\<open>(?m)^#+\s+.*$\<close>\<close>

definition markdown_header :: re where
  "markdown_header =
     seqs [Bol, Rep True 1 (\<lambda>c. c = CHR ''#''), Rep True 1 is_space, Rep True 0 dot, Eol]"

text \<open>
  \<^verbatim>\<open>(?m)^\s*[\*\-\<bullet>]\s*\<close>; the bullet U+2022 of the class is no 8-bit character.
\<close>

definition bullet_marker :: re where
  "bullet_marker =
     seqs [Bol, Rep True 0 is_space, Sym (\<lambda>c. c = CHR ''*'' \<or> c = CHR ''-''),
           Rep True 0 is_space]"

text \<open>\<^verbatim>\<open>(?m)^\s*\d+\.\s+\<close>\<close>

definition enum_marker :: re where
  "enum_marker =
     seqs [Bol, Rep True 0 is_space, Rep True 1 is_digit, chr CHR ''.'', Rep True 1 is_space]"

text \<open>\<^verbatim>\<open>`+\<close>\<close>

definition backticks :: re where
  "backticks = Rep True 1 (\<lambda>c. c = CHR 0x60)"

text \<open>\<^verbatim>\<open>(?i){re.escape(phrase)}.*\Z\<close> with \<^verbatim>\<open>re.DOTALL\<close>\<close>

definition remove_all_after :: "string \<Rightarrow> re" where
  "remove_all_after phrase = seqs [ilit phrase, Rep True 0 any_char, EndZ]"

text \<open>\<^verbatim>\<open>(?i){re.escape(phrase)}.*$\<close> with \<^verbatim>\<open>re.DOTALL\<close> and without \<^verbatim>\<open>re.MULTILINE\<close>\<close>

definition remove_line :: "string \<Rightarrow> re" where
  "remove_line phrase = seqs [ilit phrase, Rep True 0 any_char, EolS]"

text \<open>\<^verbatim>\<open>\n{3,}\<close>\<close>

definition newlines3 :: re where
  "newlines3 = Rep True 3 (\<lambda>c. c = CHR ''\<newline>'')"

definition phrases_remove_all_after :: "string list" where
  "phrases_remove_all_after = [''Here is the response in the correct format:'']"

definition phrases_remove_line :: "string list" where
  "phrases_remove_line = [''(Note:'']"

definition phrases_remove :: "string list" where
  "phrases_remove =
     [''i hope it is correct'',
      ''please let me know if'',
      ''(Note: I added the last point as it was not in the format you requested)'',
      ''Here is the corrected response:'',
      ''(Note: I added the last point as it was not in'',
      ''I hope this is what you were looking for.'',
      ''$0.00'',
      ''$$'',
      ''Here is the corrected response:'']"

text \<open>
  Lines 94 to 137 of the source: the substitutions, each on the result of the one
  before.
\<close>

definition summary_rules :: "string \<Rightarrow> string" where
  "summary_rules text =
     (let cleaned_text = re_sub bullet_count_line [] text;
          cleaned_text = re_sub headline [] cleaned_text;
          cleaned_text = re_sub markdown_header [] cleaned_text;
          cleaned_text = re_sub bullet_marker [] cleaned_text;
          cleaned_text = re_sub enum_marker [] cleaned_text;
          cleaned_text = re_sub backticks [] cleaned_text;
          cleaned_text = foldl (\<lambda>t phrase. re_sub (remove_all_after phrase) [] t)
                           cleaned_text phrases_remove_all_after;
          cleaned_text = foldl (\<lambda>t phrase. re_sub (remove_line phrase) [] t)
                           cleaned_text phrases_remove_line;
          cleaned_text = foldl (\<lambda>t phrase. re_sub (ilit phrase) [] t)
                           cleaned_text phrases_remove
      in cleaned_text)"

text \<open>Lines 140 and 141: runs of newlines are cut to two, then the ends are stripped.\<close>

definition normalize_whitespace :: "string \<Rightarrow> string" where
  "normalize_whitespace cleaned_text = strip (re_sub newlines3 ''\<newline>\<newline>'' cleaned_text)"

definition summary_text :: "string \<Rightarrow> string" where
  "summary_text text = normalize_whitespace (summary_rules text)"

text \<open>\<^verbatim>\<open>re.sub\<close> raises \<^verbatim>\<open>TypeError\<close> when its text is no str.\<close>

fun clean_llm_output_summary :: "pyval \<Rightarrow> error + pyval" where
  "clean_llm_output_summary (PStr text) = Inr (PStr (summary_text text))"
| "clean_llm_output_summary v = Inl TypeError"

section \<open>Sentiment extraction\<close>

definition mapping :: "(string \<times> int) list" where
  "mapping = [(''negative'', 0), (''neutral'', 1), (''positive'', 2)]"

text \<open>
  \<open>words_found\<close> holds each keyword as many times as \<^verbatim>\<open>re.findall\<close> finds it, the
  keywords in the order of \<open>mapping\<close>. The vote goes through \<open>find_majority\<close> with the
  dataset name \<^verbatim>\<open>"sentiment"\<close>.
\<close>

definition words_found :: "string \<Rightarrow> string list" where
  "words_found text =
     concat (map (\<lambda>word. replicate (length (re_findall (lit word) text)) word) (map fst mapping))"

definition sentiment_of_text :: "string \<Rightarrow> (nat \<Rightarrow> nat) \<Rightarrow> error + pyval" where
  "sentiment_of_text raw draws =
     (let text = map py_lower (strip raw) in
      case map_of mapping text of
        Some label \<Rightarrow> Inr (PInt label)
      | None \<Rightarrow>
          if words_found text = [] then Inr (PInt (- 1))
          else (case find_majority (map PStr (words_found text)) ''sentiment'' draws of
                  Inl e \<Rightarrow> Inl e
                | Inr (PStr majority_word) \<Rightarrow>
                    (case map_of mapping majority_word of
                       Some label \<Rightarrow> Inr (PInt label)
                     | None \<Rightarrow> Inl ValueError)
                | Inr v \<Rightarrow> Inl TypeError))"

text \<open>
  \<^verbatim>\<open>None\<close> and the empty text are invalid; any other value that is no str has no
  \<^verbatim>\<open>strip\<close> method.
\<close>

fun clean_llm_output_sentiment :: "pyval \<Rightarrow> (nat \<Rightarrow> nat) \<Rightarrow> error + pyval" where
  "clean_llm_output_sentiment PNone draws = Inr (PInt (- 1))"
| "clean_llm_output_sentiment (PStr text) draws =
     (if text = [] then Inr (PInt (- 1)) else sentiment_of_text text draws)"
| "clean_llm_output_sentiment v draws = Inl AttributeError"

section \<open>The majority voter\<close>

lemma cnt_counter_add: "cnt (counter_add y c) x = cnt c x + (if x = y then 1 else 0)"
  by (induction c) (auto simp: cnt_def)

lemma keys_counter_add: "fst ` set (counter_add y c) = insert y (fst ` set c)"
  by (induction y c rule: counter_add.induct) (simp_all add: insert_commute)

lemma distinct_counter_add: "distinct (map fst c) \<Longrightarrow> distinct (map fst (counter_add y c))"
  using keys_counter_add [of y] by (induction c) auto

lemma counter_fold:
  "cnt (foldl (\<lambda>c x. counter_add x c) c xs) x = cnt c x + count_list xs x"
  by (induction xs arbitrary: c) (auto simp: cnt_counter_add)

lemma counter_fold_keys:
  "set (map fst (foldl (\<lambda>c x. counter_add x c) c xs)) = set (map fst c) \<union> set xs"
  by (induction xs arbitrary: c) (simp_all add: keys_counter_add)

lemma counter_fold_distinct:
  "distinct (map fst c) \<Longrightarrow> distinct (map fst (foldl (\<lambda>c x. counter_add x c) c xs))"
  by (induction xs arbitrary: c) (auto simp: distinct_counter_add)

lemma Counter_entry:
  assumes "(v, n) \<in> set (Counter responses)"
  shows "n = count_list responses v" and "v \<in> set responses"
proof -
  have d: "distinct (map fst (Counter responses))"
    unfolding Counter_def by (rule counter_fold_distinct) simp
  with assms have "map_of (Counter responses) v = Some n" by simp
  then have "cnt (Counter responses) v = n" by (simp add: cnt_def)
  moreover have "cnt (Counter responses) v = cnt [] v + count_list responses v"
    unfolding Counter_def by (rule counter_fold)
  ultimately show "n = count_list responses v" by (simp add: cnt_def)
  from assms have "v \<in> set (map fst (Counter responses))" by force
  then show "v \<in> set responses" unfolding Counter_def by (simp only: counter_fold_keys) simp
qed

lemma Counter_has:
  assumes "w \<in> set responses"
  shows "(w, count_list responses w) \<in> set (Counter responses)"
proof -
  from assms have "w \<in> set (map fst (Counter responses))"
    unfolding Counter_def by (simp only: counter_fold_keys) simp
  then obtain n where n: "(w, n) \<in> set (Counter responses)" by auto
  with Counter_entry(1) [OF n] show ?thesis by simp
qed

lemma max_first_mem: "max_first p ps \<in> set (p # ps)"
  by (induction ps arbitrary: p) (auto split: if_splits)

lemma max_first_ge: "q \<in> set (p # ps) \<Longrightarrow> snd q \<le> snd (max_first p ps)"
proof (induction ps arbitrary: p q)
  case Nil then show ?case by simp
next
  case (Cons a ps)
  define p' where "p' = (if snd p < snd a then a else p)"
  have mono: "snd p' \<le> snd (max_first p' ps)"
    using Cons.IH [of p' p'] by simp
  have step: "max_first p (a # ps) = max_first p' ps" by (simp add: p'_def)
  from Cons.prems have "q \<in> set ps \<or> snd q \<le> snd p'" by (auto simp: p'_def)
  then show ?case
  proof
    assume "q \<in> set ps"
    then show ?thesis using Cons.IH [of q p'] step by simp
  next
    assume "snd q \<le> snd p'"
    then show ?thesis using mono step by simp
  qed
qed

lemma most_common_1_Counter:
  assumes "responses \<noteq> []"
  shows "\<exists>v. most_common_1 (Counter responses) = [(v, count_list responses v)]
           \<and> v \<in> set responses \<and> (\<forall>w. count_list responses w \<le> count_list responses v)"
proof -
  from assms obtain x where "x \<in> set responses" by (cases responses) auto
  then have "Counter responses \<noteq> []" using Counter_has by fastforce
  then obtain p ps where c: "Counter responses = p # ps" by (cases "Counter responses") auto
  define m where "m = max_first p ps"
  have mem: "m \<in> set (Counter responses)" unfolding m_def c by (rule max_first_mem)
  obtain v n where m: "m = (v, n)" by (cases m)
  from mem m have n: "n = count_list responses v" and v: "v \<in> set responses"
    using Counter_entry by fastforce+
  have "count_list responses w \<le> n" for w
  proof (cases "w \<in> set responses")
    case True
    then have "(w, count_list responses w) \<in> set (p # ps)" using Counter_has c by metis
    from max_first_ge [OF this] show ?thesis using m m_def by simp
  next
    case False
    then show ?thesis by (simp add: count_list_0_iff)
  qed
  with n v m show ?thesis by (auto simp: c m_def)
qed

lemma count_list_two: "x \<noteq> y \<Longrightarrow> count_list xs x + count_list xs y \<le> length xs"
  by (induction xs) auto

text \<open>
  Claim C2. On a non-empty list of responses: an item that occurs more than half as
  often as the list is long is the result, whatever the generator draws; when no item
  does, the result is the response at the drawn index, any position of the whole list;
  and in every case the result is one of the responses.
\<close>

theorem find_majority_str_vote:
  assumes "responses \<noteq> []"
  shows "(\<forall>v. length responses < 2 * count_list responses v \<longrightarrow>
            find_majority_str responses r = Inr v)
       \<and> ((\<forall>v. 2 * count_list responses v \<le> length responses) \<longrightarrow>
            find_majority_str responses r = Inr (responses ! (r mod length responses)))
       \<and> (\<exists>x \<in> set responses. find_majority_str responses r = Inr x)"
proof -
  from most_common_1_Counter [OF assms] obtain m where
    mc: "most_common_1 (Counter responses) = [(m, count_list responses m)]"
    and m: "m \<in> set responses"
    and top: "\<And>w. count_list responses w \<le> count_list responses m" by blast
  have idx: "r mod length responses < length responses" using assms by simp
  have a: "find_majority_str responses r = Inr v" if "length responses < 2 * count_list responses v" for v
  proof -
    have "length responses < 2 * count_list responses m" using that top [of v] by linarith
    moreover have "v = m"
    proof (rule ccontr)
      assume "v \<noteq> m"
      from count_list_two [OF this, of responses] that top [of v] show False by linarith
    qed
    ultimately show ?thesis by (simp add: find_majority_str_def mc)
  qed
  have b: "find_majority_str responses r = Inr (responses ! (r mod length responses))"
    if "\<forall>v. 2 * count_list responses v \<le> length responses"
    using that [rule_format, of m] by (simp add: find_majority_str_def mc random_choice_def)
  have c: "\<exists>x \<in> set responses. find_majority_str responses r = Inr x"
    using m idx by (auto simp: find_majority_str_def mc random_choice_def)
  from a b c show ?thesis by blast
qed

theorem find_majority_str_vote_witness:
  "[1, 1, 2 :: nat] \<noteq> []
   \<and> length [1, 1, 2 :: nat] < 2 * count_list [1, 1, 2 :: nat] 1
   \<and> find_majority_str [1, 1, 2 :: nat] 0 = Inr 1"
proof -
  have h: "[1, 1, 2 :: nat] \<noteq> []" by simp
  have mj: "length [1, 1, 2 :: nat] < 2 * count_list [1, 1, 2 :: nat] 1" by simp
  from find_majority_str_vote [OF h, of 0] mj
  have "find_majority_str [1, 1, 2 :: nat] 0 = Inr 1" by blast
  with h mj show ?thesis by blast
qed

end
